theory Spec2Isabelle
  imports Main "HOL-Library.Word" "HOL-Library.Sublist"
begin

section \<open>coreset.c: data\<close>

text \<open>
  The program embedded here is \<^verbatim>\<open>schedutils/coreset.c\<close>: its data, its four functions
  \<^verbatim>\<open>print_cookie\<close>, \<^verbatim>\<open>err_cookie\<close>, \<^verbatim>\<open>get_cookie\<close>, \<^verbatim>\<open>do_coreset\<close>, and \<^verbatim>\<open>main\<close>.
\<close>

text \<open>
  \<^verbatim>\<open>pid_t\<close> and the \<^verbatim>\<open>int\<close> scope are modelled as \<open>int\<close>: the program only stores
  them, compares them with constants and hands them to the kernel, so no arithmetic can
  wrap. The cookie is an \<^verbatim>\<open>unsigned long\<close>, a 64-bit word.
\<close>

type_synonym pid_t = int
type_synonym cookie_t = "64 word"

definition EXIT_SUCCESS :: int where "EXIT_SUCCESS = 0"
definition EXIT_FAILURE :: int where "EXIT_FAILURE = 1"
definition FALSE :: int where "FALSE = 0"

text \<open>The second argument of \<^verbatim>\<open>prctl(PR_SCHED_CORE, ...)\<close>.\<close>

datatype prctl_option =
    PR_SCHED_CORE_GET
  | PR_SCHED_CORE_CREATE
  | PR_SCHED_CORE_SHARE_TO
  | PR_SCHED_CORE_SHARE_FROM

definition PR_SCHED_CORE_SCOPE_THREAD :: int where "PR_SCHED_CORE_SCOPE_THREAD = 0"
definition PR_SCHED_CORE_SCOPE_THREAD_GROUP :: int where "PR_SCHED_CORE_SCOPE_THREAD_GROUP = 1"
definition PR_SCHED_CORE_SCOPE_PROCESS_GROUP :: int where "PR_SCHED_CORE_SCOPE_PROCESS_GROUP = 2"

text \<open>\<^verbatim>\<open>enum cmd_type\<close>, with the integer each enumerator stands for.\<close>

datatype cmd_type = CORE_SHOW | CORE_CREATE | CORE_PUSH | CORE_COPY

fun cmd_int :: "cmd_type \<Rightarrow> int" where
  "cmd_int CORE_SHOW = 0"
| "cmd_int CORE_CREATE = 1"
| "cmd_int CORE_PUSH = 2"
| "cmd_int CORE_COPY = 3"

text \<open>\<^verbatim>\<open>struct coreset\<close>.\<close>

record coreset =
  cs_pid :: pid_t
  cs_cookie :: cookie_t
  cs_cmd :: cmd_type
  cs_scope :: int

section \<open>The process and its environment\<close>

text \<open>
  One \<^verbatim>\<open>prctl(PR_SCHED_CORE, option, pid, scope, ...)\<close> call as the kernel sees it.
\<close>

record prctl_call =
  call_option :: prctl_option
  call_pid :: pid_t
  call_scope :: int

text \<open>
  What the program writes. The lines of \<^verbatim>\<open>print_cookie\<close> carry the pid and the cookie
  handed to \<^verbatim>\<open>printf\<close>; the messages of \<^verbatim>\<open>err_cookie\<close> carry the pid handed to
  \<^verbatim>\<open>err\<close>. Rendering by the C library is not modelled.
\<close>

datatype message =
    Cookie_Line bool pid_t cookie_t
  | Failed_Copy pid_t
  | Failed_Set pid_t
  | Failed_Get pid_t
  | Warnx string
  | Try_Help
  | Usage_Text
  | Version_Text
  | Bad_Number string
  | Failed_Exec string

text \<open>
  The environment: the kernel behind \<^verbatim>\<open>prctl\<close> is a transition function on a kernel
  state \<open>'k\<close>, giving the return value of the call, the value it stores through the fifth
  argument (read by the program after \<^verbatim>\<open>PR_SCHED_CORE_GET\<close> only), and the next state;
  \<^verbatim>\<open>getpid\<close> reads the state; \<^verbatim>\<open>execvp\<close> either replaces the process image
  (\<open>None\<close>) or returns with an \<^verbatim>\<open>errno\<close>.
\<close>

record 'k os =
  os_prctl :: "'k \<Rightarrow> prctl_call \<Rightarrow> int \<times> cookie_t \<times> 'k"
  os_getpid :: "'k \<Rightarrow> pid_t"
  os_execvp :: "string list \<Rightarrow> int option"

text \<open>
  What the process does that can be observed, in the order in which it happens: a kernel
  call, or a message written.
\<close>

datatype event = Call prctl_call | Say message

text \<open>The running process: the kernel state and the events so far (oldest first).\<close>

record 'k proc =
  kern :: 'k
  trace :: "event list"

fun calls_of :: "event list \<Rightarrow> prctl_call list" where
  "calls_of [] = []"
| "calls_of (Call c # es) = c # calls_of es"
| "calls_of (Say m # es) = calls_of es"

definition kcall :: "prctl_option \<Rightarrow> pid_t \<Rightarrow> int \<Rightarrow> event" where
  "kcall opt p sc = Call \<lparr>call_option = opt, call_pid = p, call_scope = sc\<rparr>"

text \<open>How one run of the program ends.\<close>

datatype outcome = Exit int | Exec "string list"

definition prctl ::
  "'k os \<Rightarrow> prctl_option \<Rightarrow> pid_t \<Rightarrow> int \<Rightarrow> 'k proc \<Rightarrow> (int \<times> cookie_t) \<times> 'k proc" where
  "prctl os opt p sc st =
     (let c = \<lparr>call_option = opt, call_pid = p, call_scope = sc\<rparr> in
      case os_prctl os (kern st) c of
        (r, v, k') \<Rightarrow> ((r, v), st\<lparr>kern := k', trace := trace st @ [Call c]\<rparr>))"

definition getpid :: "'k os \<Rightarrow> 'k proc \<Rightarrow> pid_t" where
  "getpid os st = os_getpid os (kern st)"

definition say :: "message \<Rightarrow> 'k proc \<Rightarrow> 'k proc" where
  "say m st = st\<lparr>trace := trace st @ [Say m]\<rparr>"

section \<open>coreset.c: functions\<close>

definition print_cookie :: "'k os \<Rightarrow> coreset \<Rightarrow> bool \<Rightarrow> 'k proc \<Rightarrow> 'k proc" where
  "print_cookie os cs isnew st =
     say (Cookie_Line isnew (if cs_pid cs \<noteq> 0 then cs_pid cs else getpid os st) (cs_cookie cs)) st"

text \<open>\<^verbatim>\<open>err_cookie\<close> does not return: the process exits with \<^verbatim>\<open>EXIT_FAILURE\<close>.\<close>

definition err_cookie :: "'k os \<Rightarrow> pid_t \<Rightarrow> int \<Rightarrow> 'k proc \<Rightarrow> (int + 'a) \<times> 'k proc" where
  "err_cookie os p setv st =
     (let who = (if p \<noteq> 0 then p else getpid os st);
          msg = (if setv = cmd_int CORE_COPY then Failed_Copy who
                 else if setv \<noteq> 0 then Failed_Set who else Failed_Get who)
      in (Inl EXIT_FAILURE, say msg st))"

definition get_cookie :: "'k os \<Rightarrow> coreset \<Rightarrow> 'k proc \<Rightarrow> (int + cookie_t) \<times> 'k proc" where
  "get_cookie os cs st =
     (let p = (if cs_cmd cs = CORE_COPY then 0 else cs_pid cs) in
      case prctl os PR_SCHED_CORE_GET p PR_SCHED_CORE_SCOPE_THREAD st of
        ((r, v), st') \<Rightarrow>
          if r < 0 then err_cookie os (if p \<noteq> 0 then p else getpid os st') FALSE st'
          else (Inr v, st'))"

text \<open>The tail of \<^verbatim>\<open>do_coreset\<close> after the switch: re-read the cookie and print it.\<close>

definition reread_cookie :: "'k os \<Rightarrow> coreset \<Rightarrow> 'k proc \<Rightarrow> (int + coreset) \<times> 'k proc" where
  "reread_cookie os cs st =
     (case get_cookie os cs st of
        (Inl e, st') \<Rightarrow> (Inl e, st')
      | (Inr c, st') \<Rightarrow>
          (let cs' = cs\<lparr>cs_cookie := c\<rparr> in (Inr cs', print_cookie os cs' True st')))"

definition do_coreset :: "'k os \<Rightarrow> coreset \<Rightarrow> 'k proc \<Rightarrow> (int + coreset) \<times> 'k proc" where
  "do_coreset os cs0 st0 =
     (case get_cookie os cs0 st0 of
        (Inl e, st1) \<Rightarrow> (Inl e, st1)
      | (Inr c, st1) \<Rightarrow>
          (let cs = cs0\<lparr>cs_cookie := c\<rparr>;
               st = print_cookie os cs False st1
           in case cs_cmd cs of
                CORE_SHOW \<Rightarrow> (Inr cs, st)
              | CORE_CREATE \<Rightarrow>
                  (case prctl os PR_SCHED_CORE_CREATE (cs_pid cs) (cs_scope cs) st of
                     ((r, _), st') \<Rightarrow>
                       if r < 0 then err_cookie os (cs_pid cs) (cmd_int (cs_cmd cs)) st'
                       else reread_cookie os cs st')
              | CORE_COPY \<Rightarrow>
                  (case prctl os PR_SCHED_CORE_SHARE_FROM (cs_pid cs) PR_SCHED_CORE_SCOPE_THREAD st of
                     ((r, _), st') \<Rightarrow>
                       if r < 0 then err_cookie os (cs_pid cs) (cmd_int (cs_cmd cs)) st'
                       else reread_cookie os cs st')
              | CORE_PUSH \<Rightarrow>
                  (case prctl os PR_SCHED_CORE_SHARE_TO (cs_pid cs) (cs_scope cs) st of
                     ((r, _), st') \<Rightarrow>
                       if r < 0 then err_cookie os (cs_pid cs) (cmd_int (cs_cmd cs)) st'
                       else reread_cookie os cs st')))"

section \<open>coreset.c: main\<close>

text \<open>
  The command line as \<^verbatim>\<open>getopt_long\<close> hands it to the loop of \<^verbatim>\<open>main\<close>: the options
  in order, then the words left from \<^verbatim>\<open>optind\<close> on (the option string starts with
  \<^verbatim>\<open>+\<close>, so parsing stops at the first word that is not an option). The argument of
  \<^verbatim>\<open>-p\<close> and \<^verbatim>\<open>-s\<close> is given as \<^verbatim>\<open>strtos32_or_err\<close> converts it, \<open>None\<close> when that
  helper rejects the text. The helper lives in \<^verbatim>\<open>lib/strutils.c\<close>, which is not among the
  sources at hand: on a rejected text it writes the message it was given and exits with
  \<^verbatim>\<open>EXIT_FAILURE\<close>.
\<close>

datatype opt =
    Opt_c
  | Opt_n
  | Opt_p "int option"
  | Opt_s "int option"
  | Opt_t
  | Opt_V
  | Opt_h
  | Opt_unknown

record invocation =
  inv_opts :: "opt list"
  inv_args :: "string list"

text \<open>The locals of \<^verbatim>\<open>main\<close> that the option loop assigns.\<close>

record mainvars =
  m_pid :: pid_t
  m_copy :: int
  m_create :: int
  m_push :: int
  m_cs :: coreset

definition mainvars0 :: mainvars where
  "mainvars0 =
     \<lparr>m_pid = 0, m_copy = 0, m_create = 0, m_push = 0,
      m_cs = \<lparr>cs_pid = 0, cs_cookie = 0, cs_cmd = CORE_SHOW, cs_scope = 0\<rparr>\<rparr>"

fun getopt_loop :: "opt list \<Rightarrow> mainvars \<Rightarrow> (message list \<times> int) + mainvars" where
  "getopt_loop [] v = Inr v"
| "getopt_loop (Opt_c # os) v = getopt_loop os (v\<lparr>m_copy := 1\<rparr>)"
| "getopt_loop (Opt_n # os) v = getopt_loop os (v\<lparr>m_create := 1\<rparr>)"
| "getopt_loop (Opt_p (Some n) # os) v = getopt_loop os (v\<lparr>m_pid := n\<rparr>)"
| "getopt_loop (Opt_p None # os) v = Inl ([Bad_Number ''invalid PID argument''], EXIT_FAILURE)"
| "getopt_loop (Opt_s (Some n) # os) v = getopt_loop os (v\<lparr>m_cs := (m_cs v)\<lparr>cs_scope := n\<rparr>\<rparr>)"
| "getopt_loop (Opt_s None # os) v = Inl ([Bad_Number ''invalid scope argument''], EXIT_FAILURE)"
| "getopt_loop (Opt_t # os) v = getopt_loop os (v\<lparr>m_push := 1\<rparr>)"
| "getopt_loop (Opt_V # os) v = Inl ([Version_Text], EXIT_SUCCESS)"
| "getopt_loop (Opt_h # os) v = Inl ([Usage_Text], EXIT_SUCCESS)"
| "getopt_loop (Opt_unknown # os) v = Inl ([Try_Help], EXIT_FAILURE)"

text \<open>\<^verbatim>\<open>warnx(msg); errtryhelp(EXIT_FAILURE);\<close>\<close>

definition bad_usage :: "string \<Rightarrow> 'k proc \<Rightarrow> outcome \<times> 'k proc" where
  "bad_usage msg st = (Exit EXIT_FAILURE, say Try_Help (say (Warnx msg) st))"

text \<open>
  \<^verbatim>\<open>errexec\<close> is a macro of \<^verbatim>\<open>include/c.h\<close>, which is not among the sources at hand:
  \<^verbatim>\<open>err(errno == ENOENT ? EX_EXEC_ENOENT : EX_EXEC_FAILED, "failed to execute %s", name)\<close>,
  with \<^verbatim>\<open>EX_EXEC_ENOENT\<close> = 127, \<^verbatim>\<open>EX_EXEC_FAILED\<close> = 126 and \<^verbatim>\<open>ENOENT\<close> = 2.
\<close>

definition errexec :: "string list \<Rightarrow> int \<Rightarrow> 'k proc \<Rightarrow> outcome \<times> 'k proc" where
  "errexec argv errno st =
     (Exit (if errno = 2 then 127 else 126),
      say (Failed_Exec (case argv of [] \<Rightarrow> [] | a # _ \<Rightarrow> a)) st)"

text \<open>
  The end of \<^verbatim>\<open>main\<close>: with \<^verbatim>\<open>do_exec\<close> the program is executed in this very
  process, and only a failed \<^verbatim>\<open>execvp\<close> returns; without it \<^verbatim>\<open>main\<close> returns
  \<^verbatim>\<open>EXIT_SUCCESS\<close>.
\<close>

definition launch :: "'k os \<Rightarrow> bool \<Rightarrow> string list \<Rightarrow> 'k proc \<Rightarrow> outcome \<times> 'k proc" where
  "launch os do_exec argv st =
     (if do_exec then
        (case os_execvp os argv of
           None \<Rightarrow> (Exec argv, st)
         | Some errno \<Rightarrow> errexec argv errno st)
      else (Exit EXIT_SUCCESS, st))"

text \<open>The selection of \<^verbatim>\<open>cs.cmd\<close> from the three flags.\<close>

definition select_cmd :: "mainvars \<Rightarrow> cmd_type" where
  "select_cmd v =
     (if m_create v \<noteq> 0 then CORE_CREATE
      else if m_copy v \<noteq> 0 then CORE_COPY
      else if m_push v \<noteq> 0 then CORE_PUSH
      else CORE_SHOW)"

text \<open>
  The four checks of \<^verbatim>\<open>main\<close> after the option loop, in their order: the text
  handed to \<^verbatim>\<open>warnx\<close> by the first check that fires, \<open>None\<close> when none does.
\<close>

definition usage_error :: "mainvars \<Rightarrow> string list \<Rightarrow> string option" where
  "usage_error v argv =
     (let pid = m_pid v; copy = m_copy v; create = m_create v; push = m_push v;
          nargs = int (length argv)
      in
      if ((pid = 0 \<or> copy \<noteq> 0) \<and> nargs < 1) \<or> ((copy \<noteq> 0 \<or> push \<noteq> 0) \<and> pid = 0)
      then Some ''bad usage''
      else if copy + create + push > 1 then Some ''bad usage''
      else if pid < 0 then Some ''invalid pid''
      else if cs_scope (m_cs v) < PR_SCHED_CORE_SCOPE_THREAD
              \<or> cs_scope (m_cs v) > PR_SCHED_CORE_SCOPE_PROCESS_GROUP
      then Some ''invalid scope''
      else None)"

text \<open>\<^verbatim>\<open>main\<close> from the end of the option loop on.\<close>

definition main_body :: "'k os \<Rightarrow> mainvars \<Rightarrow> string list \<Rightarrow> 'k proc \<Rightarrow> outcome \<times> 'k proc" where
  "main_body os v argv st =
     (case usage_error v argv of
        Some msg \<Rightarrow> bad_usage msg st
      | None \<Rightarrow>
        (let pid = m_pid v;
             do_exec0 = (int (length argv) > 0);
             cmd = select_cmd v;
             ignore = (pid \<noteq> 0 \<and> do_exec0 \<and> (cmd = CORE_SHOW \<or> cmd = CORE_CREATE));
             st1 = (if ignore then say (Warnx ''Ingoring extraneous input'') st else st);
             do_exec = (if ignore then False else do_exec0);
             cs = (m_cs v)\<lparr>cs_cmd := cmd, cs_pid := (if pid \<noteq> 0 then pid else cs_pid (m_cs v))\<rparr>
         in case do_coreset os cs st1 of
              (Inl e, st2) \<Rightarrow> (Exit e, st2)
            | (Inr _, st2) \<Rightarrow> launch os do_exec argv st2))"

definition proc0 :: "'k \<Rightarrow> 'k proc" where
  "proc0 k = \<lparr>kern = k, trace = []\<rparr>"

definition main :: "'k os \<Rightarrow> invocation \<Rightarrow> 'k \<Rightarrow> outcome \<times> 'k proc" where
  "main os iv k =
     (case getopt_loop (inv_opts iv) mainvars0 of
        Inl (msgs, code) \<Rightarrow> (Exit code, (proc0 k)\<lparr>trace := map Say msgs\<rparr>)
      | Inr v \<Rightarrow> main_body os v (inv_args iv) (proc0 k))"

section \<open>The kernel\<close>

text \<open>
  Modelled from the spec: the kernel side of \<^verbatim>\<open>prctl(PR_SCHED_CORE, ...)\<close>, which is
  no part of this repository. The spec gives it as four primitives (get, create, pull,
  push) over the state machine \<^verbatim>\<open>Uncookied | Cookied(value)\<close> per task, cookie 0 meaning
  none: a read observes and changes nothing; create gives the target a kernel-chosen
  cookie; pull makes the caller adopt the cookie of the source; push puts the cookie of
  the caller on the target; create and push reach the task alone (scope 0), its thread
  group (scope 1) or its process group (scope 2). A call that names no existing task
  fails with a negative return value and changes nothing; pid 0 names the caller.
\<close>

record kstate =
  k_self :: pid_t
  k_cookie :: "pid_t \<rightharpoonup> cookie_t"
  k_tgid :: "pid_t \<Rightarrow> pid_t"
  k_pgid :: "pid_t \<Rightarrow> pid_t"
  k_fresh :: cookie_t

definition in_scope :: "kstate \<Rightarrow> int \<Rightarrow> pid_t \<Rightarrow> pid_t \<Rightarrow> bool" where
  "in_scope k sc t p =
     (if sc = PR_SCHED_CORE_SCOPE_THREAD then p = t
      else if sc = PR_SCHED_CORE_SCOPE_THREAD_GROUP then k_tgid k p = k_tgid k t
      else k_pgid k p = k_pgid k t)"

definition set_cookies :: "kstate \<Rightarrow> int \<Rightarrow> pid_t \<Rightarrow> cookie_t \<Rightarrow> kstate" where
  "set_cookies k sc t c =
     k\<lparr>k_cookie :=
         (\<lambda>p. case k_cookie k p of
                None \<Rightarrow> None
              | Some old \<Rightarrow> Some (if in_scope k sc t p then c else old))\<rparr>"

definition spec_prctl :: "kstate \<Rightarrow> prctl_call \<Rightarrow> int \<times> cookie_t \<times> kstate" where
  "spec_prctl k c =
     (let t = (if call_pid c = 0 then k_self k else call_pid c) in
      case (k_cookie k t, k_cookie k (k_self k)) of
        (Some ct, Some cself) \<Rightarrow>
          (case call_option c of
             PR_SCHED_CORE_GET \<Rightarrow> (0, ct, k)
           | PR_SCHED_CORE_CREATE \<Rightarrow>
               (0, 0, (set_cookies k (call_scope c) t (k_fresh k))\<lparr>k_fresh := k_fresh k + 1\<rparr>)
           | PR_SCHED_CORE_SHARE_TO \<Rightarrow> (0, 0, set_cookies k (call_scope c) t cself)
           | PR_SCHED_CORE_SHARE_FROM \<Rightarrow>
               (0, 0, set_cookies k PR_SCHED_CORE_SCOPE_THREAD (k_self k) ct))
      | _ \<Rightarrow> (- 1, 0, k))"

definition spec_os :: "(string list \<Rightarrow> int option) \<Rightarrow> kstate os" where
  "spec_os ex = \<lparr>os_prctl = spec_prctl, os_getpid = k_self, os_execvp = ex\<rparr>"

text \<open>
  A small machine for concrete runs: the caller is task 42 with cookie 7, task 700 has
  cookie 5, task 701 has none; every task is alone in its thread group and all are in
  process group 1.
\<close>

definition demo_kernel :: kstate where
  "demo_kernel =
     \<lparr>k_self = 42, k_cookie = [42 \<mapsto> 7, 700 \<mapsto> 5, 701 \<mapsto> 0],
      k_tgid = (\<lambda>p. p), k_pgid = (\<lambda>p. 1), k_fresh = 100\<rparr>"

definition demo_os :: "kstate os" where
  "demo_os = spec_os (\<lambda>argv. None)"

section \<open>Proof tools\<close>

lemmas consts_defs = EXIT_SUCCESS_def EXIT_FAILURE_def FALSE_def
  PR_SCHED_CORE_SCOPE_THREAD_def PR_SCHED_CORE_SCOPE_THREAD_GROUP_def PR_SCHED_CORE_SCOPE_PROCESS_GROUP_def

lemmas run_defs = do_coreset_def reread_cookie_def get_cookie_def
  err_cookie_def print_cookie_def prctl_def getpid_def say_def kcall_def Let_def case_prod_beta

lemmas kernel_defs = spec_os_def spec_prctl_def set_cookies_def in_scope_def

lemmas demo_defs = demo_kernel_def demo_os_def

lemma calls_of_append [simp]: "calls_of (xs @ ys) = calls_of xs @ calls_of ys"
  by (induction xs rule: calls_of.induct) simp_all

lemma calls_of_map_Say [simp]: "calls_of (map Say ms) = []"
  by (induction ms) simp_all

lemma getopt_loop_copy:
  "getopt_loop os v = Inr v' \<Longrightarrow> m_copy v' = (if Opt_c \<in> set os then 1 else m_copy v)"
  by (induction os v rule: getopt_loop.induct) (auto split: if_splits)

lemma getopt_loop_create:
  "getopt_loop os v = Inr v' \<Longrightarrow> m_create v' = (if Opt_n \<in> set os then 1 else m_create v)"
  by (induction os v rule: getopt_loop.induct) (auto split: if_splits)

lemma getopt_loop_push:
  "getopt_loop os v = Inr v' \<Longrightarrow> m_push v' = (if Opt_t \<in> set os then 1 else m_push v)"
  by (induction os v rule: getopt_loop.induct) (auto split: if_splits)

lemma getopt_loop_cs:
  "getopt_loop os v = Inr v' \<Longrightarrow> cs_pid (m_cs v') = cs_pid (m_cs v)"
  by (induction os v rule: getopt_loop.induct) (auto split: if_splits)

lemma getopt_flags:
  assumes "getopt_loop os mainvars0 = Inr v"
  shows "m_copy v = (if Opt_c \<in> set os then 1 else 0)"
    and "m_create v = (if Opt_n \<in> set os then 1 else 0)"
    and "m_push v = (if Opt_t \<in> set os then 1 else 0)"
    and "cs_pid (m_cs v) = 0"
  using getopt_loop_copy [OF assms] getopt_loop_create [OF assms] getopt_loop_push [OF assms]
    getopt_loop_cs [OF assms]
  by (simp_all add: mainvars0_def)

lemma main_parsed:
  "getopt_loop (inv_opts iv) mainvars0 = Inr v \<Longrightarrow>
     main os iv k = main_body os v (inv_args iv) (proc0 k)"
  by (simp add: main_def)

lemma main_body_rejected:
  "usage_error v argv = Some msg \<Longrightarrow>
     main_body os v argv st =
       (Exit EXIT_FAILURE, st\<lparr>trace := trace st @ [Say (Warnx msg), Say Try_Help]\<rparr>)"
  by (simp add: main_body_def bad_usage_def say_def)

lemma usage_error_NoneD:
  assumes "usage_error v argv = None"
  shows "m_pid v \<noteq> 0 \<or> argv \<noteq> []"
    and "m_copy v \<noteq> 0 \<Longrightarrow> argv \<noteq> [] \<and> m_pid v \<noteq> 0"
    and "m_push v \<noteq> 0 \<Longrightarrow> m_pid v \<noteq> 0"
    and "m_copy v + m_create v + m_push v \<le> 1"
    and "0 \<le> m_pid v"
    and "PR_SCHED_CORE_SCOPE_THREAD \<le> cs_scope (m_cs v)"
    and "cs_scope (m_cs v) \<le> PR_SCHED_CORE_SCOPE_PROCESS_GROUP"
  using assms by (auto simp add: usage_error_def Let_def split: if_splits)


lemma launch_facts:
  "calls_of (trace (snd (launch os b argv st))) = calls_of (trace st)"
  "kern (snd (launch os b argv st)) = kern st"
  "fst (launch os b argv st) \<noteq> Exit EXIT_FAILURE"
  by (simp_all add: launch_def errexec_def say_def EXIT_FAILURE_def EXIT_SUCCESS_def split: option.split)

lemma do_coreset_fails:
  "fst (do_coreset os cs st) = Inl e \<Longrightarrow> e = EXIT_FAILURE"
  by (cases "cs_cmd cs") (simp_all add: run_defs split: if_splits)

text \<open>What \<^verbatim>\<open>main\<close> adds around \<^verbatim>\<open>do_coreset\<close>.\<close>

lemma finish_facts:
  fixes R :: "(int + coreset) \<times> 'k proc" and os :: "'k os" and b :: bool and argv :: "string list"
  defines "res \<equiv> (case R of (Inl e, st2) \<Rightarrow> (Exit e, st2) | (Inr x, st2) \<Rightarrow> launch os b argv st2)"
  shows "calls_of (trace (snd res)) = calls_of (trace (snd R))"
    and "kern (snd res) = kern (snd R)"
    and "fst R = Inl EXIT_FAILURE \<Longrightarrow> res = (Exit EXIT_FAILURE, snd R)"
    and "fst R = Inr c \<Longrightarrow> res = launch os b argv (snd R)"
  unfolding res_def by (cases R; cases "fst R"; simp add: launch_facts)+

lemma main_body_copy:
  assumes "usage_error v argv = None" "m_copy v \<noteq> 0" "m_create v = 0" "cs_pid (m_cs v) = 0"
  shows "main_body os v argv st =
     (case do_coreset os ((m_cs v)\<lparr>cs_cmd := CORE_COPY, cs_pid := m_pid v\<rparr>) st of
        (Inl e, st2) \<Rightarrow> (Exit e, st2)
      | (Inr x, st2) \<Rightarrow> launch os True argv st2)"
  using assms usage_error_NoneD(2) [OF assms(1)]
  by (simp add: main_body_def select_cmd_def Let_def split: prod.split sum.split)

lemma do_coreset_copy_calls:
  assumes "cs_cmd cs = CORE_COPY"
  shows "prefix (calls_of (trace (snd (do_coreset os cs st))))
           (calls_of (trace st) @
             [\<lparr>call_option = PR_SCHED_CORE_GET, call_pid = 0, call_scope = PR_SCHED_CORE_SCOPE_THREAD\<rparr>,
              \<lparr>call_option = PR_SCHED_CORE_SHARE_FROM, call_pid = cs_pid cs, call_scope = PR_SCHED_CORE_SCOPE_THREAD\<rparr>,
              \<lparr>call_option = PR_SCHED_CORE_GET, call_pid = 0, call_scope = PR_SCHED_CORE_SCOPE_THREAD\<rparr>])"
  using assms by (simp add: run_defs consts_defs)

lemma do_coreset_copy_ok:
  assumes "cs_cmd cs = CORE_COPY" "fst (do_coreset os cs st) = Inr cs'"
  shows "calls_of (trace (snd (do_coreset os cs st))) =
           calls_of (trace st) @
             [\<lparr>call_option = PR_SCHED_CORE_GET, call_pid = 0, call_scope = PR_SCHED_CORE_SCOPE_THREAD\<rparr>,
              \<lparr>call_option = PR_SCHED_CORE_SHARE_FROM, call_pid = cs_pid cs, call_scope = PR_SCHED_CORE_SCOPE_THREAD\<rparr>,
              \<lparr>call_option = PR_SCHED_CORE_GET, call_pid = 0, call_scope = PR_SCHED_CORE_SCOPE_THREAD\<rparr>]"
  using assms by (simp add: run_defs consts_defs split: if_splits)

lemma spec_get_unchanged:
  "snd (snd (spec_prctl k \<lparr>call_option = PR_SCHED_CORE_GET, call_pid = p, call_scope = sc\<rparr>)) = k"
  by (simp add: spec_prctl_def Let_def split: option.split)

lemma spec_get_value:
  "0 \<le> fst (spec_prctl k \<lparr>call_option = PR_SCHED_CORE_GET, call_pid = p, call_scope = sc\<rparr>) \<Longrightarrow>
     k_cookie k (if p = 0 then k_self k else p)
       = Some (fst (snd (spec_prctl k \<lparr>call_option = PR_SCHED_CORE_GET, call_pid = p, call_scope = sc\<rparr>)))"
  by (auto simp add: spec_prctl_def Let_def split: option.splits if_splits)

lemma spec_share_from:
  assumes "0 \<le> fst (spec_prctl k \<lparr>call_option = PR_SCHED_CORE_SHARE_FROM, call_pid = p, call_scope = sc\<rparr>)"
    and "p \<noteq> 0"
  shows "k_cookie k p \<noteq> None"
    and "k_cookie (snd (snd (spec_prctl k \<lparr>call_option = PR_SCHED_CORE_SHARE_FROM, call_pid = p, call_scope = sc\<rparr>))) (k_self k)
           = k_cookie k p"
  using assms
  by (auto simp add: spec_prctl_def set_cookies_def in_scope_def Let_def split: option.splits if_splits)

lemma do_coreset_copy_kern:
  assumes "cs_cmd cs = CORE_COPY" "fst (do_coreset os cs st) = Inr cs'"
  shows "\<exists>k1 k2. 
           k1 = snd (snd (os_prctl os (kern st) \<lparr>call_option = PR_SCHED_CORE_GET, call_pid = 0, call_scope = PR_SCHED_CORE_SCOPE_THREAD\<rparr>))
         \<and> k2 = snd (snd (os_prctl os k1 \<lparr>call_option = PR_SCHED_CORE_SHARE_FROM, call_pid = cs_pid cs, call_scope = PR_SCHED_CORE_SCOPE_THREAD\<rparr>))
         \<and> 0 \<le> fst (os_prctl os k1 \<lparr>call_option = PR_SCHED_CORE_SHARE_FROM, call_pid = cs_pid cs, call_scope = PR_SCHED_CORE_SCOPE_THREAD\<rparr>)
         \<and> kern (snd (do_coreset os cs st))
             = snd (snd (os_prctl os k2 \<lparr>call_option = PR_SCHED_CORE_GET, call_pid = 0, call_scope = PR_SCHED_CORE_SCOPE_THREAD\<rparr>))"
  using assms by (simp add: run_defs split: if_splits)

lemma do_coreset_copy_spec:
  assumes "cs_cmd cs = CORE_COPY" "cs_pid cs \<noteq> 0" "fst (do_coreset (spec_os ex) cs st) = Inr cs'"
  shows "k_cookie (kern st) (cs_pid cs) \<noteq> None \<and>
         k_cookie (kern (snd (do_coreset (spec_os ex) cs st))) (k_self (kern st))
           = k_cookie (kern st) (cs_pid cs)"
  using do_coreset_copy_kern [OF assms(1,3)] spec_share_from [OF _ assms(2), of "kern st" PR_SCHED_CORE_SCOPE_THREAD]
  by (simp add: spec_os_def spec_get_unchanged)


lemma finish_ok:
  assumes "fst (case do_coreset os cs st of (Inl e, st2) \<Rightarrow> (Exit e, st2)
                | (Inr x, st2) \<Rightarrow> launch os b argv st2) \<noteq> Exit EXIT_FAILURE"
  shows "\<exists>c. fst (do_coreset os cs st) = Inr c"
proof (cases "fst (do_coreset os cs st)")
  case (Inl e)
  then have "fst (do_coreset os cs st) = Inl EXIT_FAILURE"
    using do_coreset_fails [of os cs st e] by simp
  from finish_facts(3) [OF this] assms show ?thesis by simp
next
  case (Inr c)
  then show ?thesis by blast
qed

section \<open>COPY\<close>

text \<open>
  Claim C1. For every invocation with \<^verbatim>\<open>-c\<close>, whatever the kernel answers, the kernel calls
  issued are an initial part of the fixed sequence: read the cookie of the calling task,
  pull the cookie of the source pid into the calling task (\<^verbatim>\<open>PR_SCHED_CORE_SHARE_FROM\<close>
  at scope 0), read the cookie of the calling task again. When the run does not fail the
  sequence is issued in full, and on the kernel of the spec the cookie of the destination
  afterwards is the cookie the source had before the copy (none when the source had none).
  In this program the destination of a COPY is always the calling task, whose image the
  trailing program then replaces: \<^verbatim>\<open>-p\<close> names the source, no option names another
  destination, and so no push (\<^verbatim>\<open>PR_SCHED_CORE_SHARE_TO\<close>) follows the pull.
\<close>

theorem copy_pulls_into_caller:
  assumes "getopt_loop (inv_opts iv) mainvars0 = Inr v" and "Opt_c \<in> set (inv_opts iv)"
  shows "prefix (calls_of (trace (snd (main os iv k))))
           [\<lparr>call_option = PR_SCHED_CORE_GET, call_pid = 0, call_scope = PR_SCHED_CORE_SCOPE_THREAD\<rparr>,
            \<lparr>call_option = PR_SCHED_CORE_SHARE_FROM, call_pid = m_pid v, call_scope = PR_SCHED_CORE_SCOPE_THREAD\<rparr>,
            \<lparr>call_option = PR_SCHED_CORE_GET, call_pid = 0, call_scope = PR_SCHED_CORE_SCOPE_THREAD\<rparr>]
       \<and> (fst (main os iv k) \<noteq> Exit EXIT_FAILURE \<longrightarrow>
            calls_of (trace (snd (main os iv k))) =
             [\<lparr>call_option = PR_SCHED_CORE_GET, call_pid = 0, call_scope = PR_SCHED_CORE_SCOPE_THREAD\<rparr>,
              \<lparr>call_option = PR_SCHED_CORE_SHARE_FROM, call_pid = m_pid v, call_scope = PR_SCHED_CORE_SCOPE_THREAD\<rparr>,
              \<lparr>call_option = PR_SCHED_CORE_GET, call_pid = 0, call_scope = PR_SCHED_CORE_SCOPE_THREAD\<rparr>])
       \<and> (fst (main (spec_os ex) iv ks) \<noteq> Exit EXIT_FAILURE \<longrightarrow>
            k_cookie ks (m_pid v) \<noteq> None \<and>
            k_cookie (kern (snd (main (spec_os ex) iv ks))) (k_self ks) = k_cookie ks (m_pid v))"
proof (cases "usage_error v (inv_args iv)")
  case (Some msg)
  show ?thesis
    by (simp add: main_parsed [OF assms(1)] main_body_rejected [OF Some] proc0_def)
next
  case None
  note fl = getopt_flags [OF assms(1)]
  have c: "m_copy v \<noteq> 0" using fl(1) assms(2) by simp
  have cr: "m_create v = 0"
    using usage_error_NoneD(4) [OF None] c fl(1,2,3) by (simp split: if_splits)
  have pid: "m_pid v \<noteq> 0" using usage_error_NoneD(2) [OF None c] by simp
  note mb = main_body_copy [OF None c cr fl(4)]
  let ?cs = "(m_cs v)\<lparr>cs_cmd := CORE_COPY, cs_pid := m_pid v\<rparr>"
  have cm: "cs_cmd ?cs = CORE_COPY" and cp: "cs_pid ?cs = m_pid v" by simp_all
  have 1: "prefix (calls_of (trace (snd (main os iv k))))
           [\<lparr>call_option = PR_SCHED_CORE_GET, call_pid = 0, call_scope = PR_SCHED_CORE_SCOPE_THREAD\<rparr>,
            \<lparr>call_option = PR_SCHED_CORE_SHARE_FROM, call_pid = m_pid v, call_scope = PR_SCHED_CORE_SCOPE_THREAD\<rparr>,
            \<lparr>call_option = PR_SCHED_CORE_GET, call_pid = 0, call_scope = PR_SCHED_CORE_SCOPE_THREAD\<rparr>]"
    using do_coreset_copy_calls [OF cm, of os "proc0 k"]
    by (simp add: main_parsed [OF assms(1)] mb finish_facts(1) proc0_def)
  have 2: "calls_of (trace (snd (main os iv k))) =
             [\<lparr>call_option = PR_SCHED_CORE_GET, call_pid = 0, call_scope = PR_SCHED_CORE_SCOPE_THREAD\<rparr>,
              \<lparr>call_option = PR_SCHED_CORE_SHARE_FROM, call_pid = m_pid v, call_scope = PR_SCHED_CORE_SCOPE_THREAD\<rparr>,
              \<lparr>call_option = PR_SCHED_CORE_GET, call_pid = 0, call_scope = PR_SCHED_CORE_SCOPE_THREAD\<rparr>]"
    if ok: "fst (main os iv k) \<noteq> Exit EXIT_FAILURE"
  proof -
    from ok obtain c' where "fst (do_coreset os ?cs (proc0 k)) = Inr c'"
      using finish_ok [where os = os and cs = ?cs and st = "proc0 k" and b = True and argv = "inv_args iv"]
      by (auto simp add: main_parsed [OF assms(1)] mb)
    from do_coreset_copy_ok [OF cm this] show ?thesis
      by (simp add: main_parsed [OF assms(1)] mb finish_facts(1) proc0_def)
  qed
  have 3: "k_cookie ks (m_pid v) \<noteq> None \<and>
            k_cookie (kern (snd (main (spec_os ex) iv ks))) (k_self ks) = k_cookie ks (m_pid v)"
    if ok: "fst (main (spec_os ex) iv ks) \<noteq> Exit EXIT_FAILURE"
  proof -
    from ok obtain c' where "fst (do_coreset (spec_os ex) ?cs (proc0 ks)) = Inr c'"
      using finish_ok [where os = "spec_os ex" and cs = ?cs and st = "proc0 ks" and b = True and argv = "inv_args iv"]
      by (auto simp add: main_parsed [OF assms(1)] mb)
    from do_coreset_copy_spec [OF cm _ this] pid show ?thesis
      by (simp add: main_parsed [OF assms(1)] mb finish_facts(2) proc0_def)
  qed
  from 1 2 3 show ?thesis by blast
qed

theorem copy_pulls_into_caller_witness:
  "getopt_loop (inv_opts \<lparr>inv_opts = [Opt_c, Opt_p (Some 700)], inv_args = [''sshd'']\<rparr>) mainvars0
      = Inr (mainvars0\<lparr>m_copy := 1, m_pid := 700\<rparr>)
   \<and> Opt_c \<in> set (inv_opts \<lparr>inv_opts = [Opt_c, Opt_p (Some 700)], inv_args = [''sshd'']\<rparr>)
   \<and> fst (main demo_os \<lparr>inv_opts = [Opt_c, Opt_p (Some 700)], inv_args = [''sshd'']\<rparr> demo_kernel)
        = Exec [''sshd'']
   \<and> calls_of (trace (snd (main demo_os \<lparr>inv_opts = [Opt_c, Opt_p (Some 700)], inv_args = [''sshd'']\<rparr> demo_kernel))) =
        [\<lparr>call_option = PR_SCHED_CORE_GET, call_pid = 0, call_scope = PR_SCHED_CORE_SCOPE_THREAD\<rparr>,
         \<lparr>call_option = PR_SCHED_CORE_SHARE_FROM, call_pid = 700, call_scope = PR_SCHED_CORE_SCOPE_THREAD\<rparr>,
         \<lparr>call_option = PR_SCHED_CORE_GET, call_pid = 0, call_scope = PR_SCHED_CORE_SCOPE_THREAD\<rparr>]
   \<and> k_cookie demo_kernel 700 = Some 5
   \<and> k_cookie (kern (snd (main demo_os \<lparr>inv_opts = [Opt_c, Opt_p (Some 700)], inv_args = [''sshd'']\<rparr> demo_kernel))) 42
        = Some 5"
proof -
  let ?iv = "\<lparr>inv_opts = [Opt_c, Opt_p (Some 700)], inv_args = [''sshd'']\<rparr>"
  have p: "getopt_loop (inv_opts ?iv) mainvars0 = Inr (mainvars0\<lparr>m_copy := 1, m_pid := 700\<rparr>)"
    by simp
  have c: "Opt_c \<in> set (inv_opts ?iv)" by simp
  have e: "fst (main demo_os ?iv demo_kernel) = Exec [''sshd'']"
    by (simp add: main_def main_body_def usage_error_def select_cmd_def launch_def proc0_def
        mainvars0_def run_defs consts_defs kernel_defs demo_defs)
  have ne: "fst (main (spec_os (\<lambda>argv. None)) ?iv demo_kernel) \<noteq> Exit EXIT_FAILURE"
    using e by (simp add: demo_os_def)
  have s: "k_self demo_kernel = 42" "k_cookie demo_kernel 700 = Some 5"
    by (simp_all add: demo_kernel_def)
  from copy_pulls_into_caller [OF p c, of demo_os demo_kernel "\<lambda>argv. None" demo_kernel] ne e s p c
  show ?thesis by (simp add: demo_os_def)
qed

lemma main_option_exit:
  "getopt_loop (inv_opts iv) mainvars0 = Inl (msgs, code) \<Longrightarrow>
     main os iv k = (Exit code, \<lparr>kern = k, trace = map Say msgs\<rparr>)"
  by (simp add: main_def proc0_def)

lemma main_rejected:
  assumes "getopt_loop (inv_opts iv) mainvars0 = Inr v" "usage_error v (inv_args iv) = Some msg"
  shows "main os iv k = (Exit EXIT_FAILURE, \<lparr>kern = k, trace = [Say (Warnx msg), Say Try_Help]\<rparr>)"
  by (simp add: main_parsed [OF assms(1)] main_body_rejected [OF assms(2)] proc0_def)

lemma main_body_accepted:
  assumes "usage_error v argv = None" "cs_pid (m_cs v) = 0"
  shows "main_body os v argv st =
     (case do_coreset os ((m_cs v)\<lparr>cs_cmd := select_cmd v, cs_pid := m_pid v\<rparr>)
             (if m_pid v \<noteq> 0 \<and> argv \<noteq> [] \<and> (select_cmd v = CORE_SHOW \<or> select_cmd v = CORE_CREATE)
              then say (Warnx ''Ingoring extraneous input'') st else st) of
        (Inl e, st2) \<Rightarrow> (Exit e, st2)
      | (Inr x, st2) \<Rightarrow>
          launch os (argv \<noteq> [] \<and> \<not> (m_pid v \<noteq> 0 \<and> (select_cmd v = CORE_SHOW \<or> select_cmd v = CORE_CREATE)))
            argv st2)"
  using assms
  by (cases "m_pid v = 0"; cases "argv = []";
      simp add: main_body_def Let_def cong: prod.case_cong sum.case_cong)

section \<open>The checks before the kernel is touched\<close>

text \<open>
  Claim C3. Once the option loop has run through, an invocation whose pid is negative or
  whose scope is none of 0, 1, 2 is a usage error: one of the checks of \<^verbatim>\<open>main\<close> fires,
  the process writes the warning and the hint and exits with \<^verbatim>\<open>EXIT_FAILURE\<close>; it has
  issued no kernel call and the kernel state is the one it started from. (An option loop
  that ends the run itself, on \<^verbatim>\<open>-h\<close>, \<^verbatim>\<open>-V\<close>, an unknown option or a malformed number,
  issues no kernel call either: \<open>main_option_exit\<close>.)
\<close>

theorem invalid_scope_or_pid_rejected:
  assumes "getopt_loop (inv_opts iv) mainvars0 = Inr v"
    and "m_pid v < 0 \<or>
         cs_scope (m_cs v) \<notin> {PR_SCHED_CORE_SCOPE_THREAD, PR_SCHED_CORE_SCOPE_THREAD_GROUP,
                                 PR_SCHED_CORE_SCOPE_PROCESS_GROUP}"
  shows "\<exists>msg. usage_error v (inv_args iv) = Some msg
           \<and> main os iv k = (Exit EXIT_FAILURE, \<lparr>kern = k, trace = [Say (Warnx msg), Say Try_Help]\<rparr>)
           \<and> calls_of (trace (snd (main os iv k))) = []"
proof -
  from assms(2) obtain msg where m: "usage_error v (inv_args iv) = Some msg"
    by (cases "usage_error v (inv_args iv)")
       (auto simp add: usage_error_def Let_def consts_defs split: if_splits)
  from main_rejected [OF assms(1) m, of os k] m show ?thesis by simp
qed

theorem invalid_scope_or_pid_rejected_witness:
  "getopt_loop (inv_opts \<lparr>inv_opts = [Opt_n, Opt_s (Some 5), Opt_p (Some 700)], inv_args = []\<rparr>) mainvars0
     = Inr (mainvars0\<lparr>m_create := 1, m_pid := 700,
              m_cs := \<lparr>cs_pid = 0, cs_cookie = 0, cs_cmd = CORE_SHOW, cs_scope = 5\<rparr>\<rparr>)
   \<and> main demo_os \<lparr>inv_opts = [Opt_n, Opt_s (Some 5), Opt_p (Some 700)], inv_args = []\<rparr> demo_kernel
     = (Exit EXIT_FAILURE, \<lparr>kern = demo_kernel, trace = [Say (Warnx ''invalid scope''), Say Try_Help]\<rparr>)"
proof -
  let ?iv = "\<lparr>inv_opts = [Opt_n, Opt_s (Some 5), Opt_p (Some 700)], inv_args = []\<rparr>"
  let ?v = "mainvars0\<lparr>m_create := 1, m_pid := 700,
              m_cs := \<lparr>cs_pid = 0, cs_cookie = 0, cs_cmd = CORE_SHOW, cs_scope = 5\<rparr>\<rparr>"
  have p: "getopt_loop (inv_opts ?iv) mainvars0 = Inr ?v"
    by (simp add: mainvars0_def)
  have b: "m_pid ?v < 0 \<or>
         cs_scope (m_cs ?v) \<notin> {PR_SCHED_CORE_SCOPE_THREAD, PR_SCHED_CORE_SCOPE_THREAD_GROUP,
                                 PR_SCHED_CORE_SCOPE_PROCESS_GROUP}"
    by (simp add: consts_defs)
  have u: "usage_error ?v (inv_args ?iv) = Some ''invalid scope''"
    by (simp add: usage_error_def consts_defs mainvars0_def)
  from invalid_scope_or_pid_rejected [OF p b, of demo_os demo_kernel] u p
  show ?thesis by simp
qed


lemma launch_cases:
  "\<not> b \<Longrightarrow> launch os b argv st = (Exit EXIT_SUCCESS, st)"
  "b \<Longrightarrow> os_execvp os argv = None \<Longrightarrow> launch os b argv st = (Exec argv, st)"
  "b \<Longrightarrow> os_execvp os argv = Some e \<Longrightarrow>
     fst (launch os b argv st) = Exit (if e = 2 then 127 else 126)"
  "\<exists>tl. trace (snd (launch os b argv st)) = trace st @ tl"
  "fst (launch os b argv st) = Exec a \<Longrightarrow> b \<and> a = argv \<and> os_execvp os argv = None"
  by (auto simp add: launch_def errexec_def say_def split: option.splits if_splits)

lemma do_coreset_show_calls:
  assumes "cs_cmd cs = CORE_SHOW"
  shows "calls_of (trace (snd (do_coreset os cs st))) =
           calls_of (trace st) @
             [\<lparr>call_option = PR_SCHED_CORE_GET, call_pid = cs_pid cs, call_scope = PR_SCHED_CORE_SCOPE_THREAD\<rparr>]"
  using assms by (simp add: run_defs consts_defs)

lemma do_coreset_create_calls:
  assumes "cs_cmd cs = CORE_CREATE"
  shows "prefix (calls_of (trace (snd (do_coreset os cs st))))
           (calls_of (trace st) @
             [\<lparr>call_option = PR_SCHED_CORE_GET, call_pid = cs_pid cs, call_scope = PR_SCHED_CORE_SCOPE_THREAD\<rparr>,
              \<lparr>call_option = PR_SCHED_CORE_CREATE, call_pid = cs_pid cs, call_scope = cs_scope cs\<rparr>,
              \<lparr>call_option = PR_SCHED_CORE_GET, call_pid = cs_pid cs, call_scope = PR_SCHED_CORE_SCOPE_THREAD\<rparr>])"
  using assms by (simp add: run_defs consts_defs)

lemma do_coreset_create_ok:
  assumes "cs_cmd cs = CORE_CREATE" "fst (do_coreset os cs st) = Inr cs'"
  shows "\<exists>p0 c0 p1 c1. trace (snd (do_coreset os cs st)) =
           trace st @
             [kcall PR_SCHED_CORE_GET (cs_pid cs) PR_SCHED_CORE_SCOPE_THREAD,
              Say (Cookie_Line False p0 c0),
              kcall PR_SCHED_CORE_CREATE (cs_pid cs) (cs_scope cs),
              kcall PR_SCHED_CORE_GET (cs_pid cs) PR_SCHED_CORE_SCOPE_THREAD,
              Say (Cookie_Line True p1 c1)]"
  using assms by (simp add: run_defs consts_defs split: if_splits)

lemma do_coreset_push_calls:
  assumes "cs_cmd cs = CORE_PUSH"
  shows "prefix (calls_of (trace (snd (do_coreset os cs st))))
           (calls_of (trace st) @
             [\<lparr>call_option = PR_SCHED_CORE_GET, call_pid = cs_pid cs, call_scope = PR_SCHED_CORE_SCOPE_THREAD\<rparr>,
              \<lparr>call_option = PR_SCHED_CORE_SHARE_TO, call_pid = cs_pid cs, call_scope = cs_scope cs\<rparr>,
              \<lparr>call_option = PR_SCHED_CORE_GET, call_pid = cs_pid cs, call_scope = PR_SCHED_CORE_SCOPE_THREAD\<rparr>])"
  using assms by (simp add: run_defs consts_defs)

lemma do_coreset_push_ok:
  assumes "cs_cmd cs = CORE_PUSH" "fst (do_coreset os cs st) = Inr cs'"
  shows "\<exists>p0 c0 p1 c1. trace (snd (do_coreset os cs st)) =
           trace st @
             [kcall PR_SCHED_CORE_GET (cs_pid cs) PR_SCHED_CORE_SCOPE_THREAD,
              Say (Cookie_Line False p0 c0),
              kcall PR_SCHED_CORE_SHARE_TO (cs_pid cs) (cs_scope cs),
              kcall PR_SCHED_CORE_GET (cs_pid cs) PR_SCHED_CORE_SCOPE_THREAD,
              Say (Cookie_Line True p1 c1)]"
  using assms by (simp add: run_defs consts_defs split: if_splits)

lemma main_accepted:
  assumes "getopt_loop (inv_opts iv) mainvars0 = Inr v" "usage_error v (inv_args iv) = None"
  shows "main os iv k =
     (case do_coreset os ((m_cs v)\<lparr>cs_cmd := select_cmd v, cs_pid := m_pid v\<rparr>)
             (if m_pid v \<noteq> 0 \<and> inv_args iv \<noteq> [] \<and> (select_cmd v = CORE_SHOW \<or> select_cmd v = CORE_CREATE)
              then say (Warnx ''Ingoring extraneous input'') (proc0 k) else proc0 k) of
        (Inl e, st2) \<Rightarrow> (Exit e, st2)
      | (Inr x, st2) \<Rightarrow>
          launch os (inv_args iv \<noteq> [] \<and> \<not> (m_pid v \<noteq> 0 \<and> (select_cmd v = CORE_SHOW \<or> select_cmd v = CORE_CREATE)))
            (inv_args iv) st2)"
  by (simp only: main_parsed [OF assms(1)] main_body_accepted [OF assms(2) getopt_flags(4) [OF assms(1)]])

text \<open>
  Claim C4. Each of \<^verbatim>\<open>-c\<close>, \<^verbatim>\<open>-n\<close>, \<^verbatim>\<open>-t\<close> sets its flag to 1 however often it
  is given. An invocation with more than one of the three flags is rejected with
  \<^verbatim>\<open>bad usage\<close> before any kernel call; so a request that passes the checks has at most
  one. With none of them the command is \<^verbatim>\<open>CORE_SHOW\<close>, and the run only ever reads
  (\<^verbatim>\<open>PR_SCHED_CORE_GET\<close>).
\<close>

theorem commands_mutually_exclusive:
  assumes "getopt_loop (inv_opts iv) mainvars0 = Inr v"
  shows "m_copy v = (if Opt_c \<in> set (inv_opts iv) then 1 else 0)
       \<and> m_create v = (if Opt_n \<in> set (inv_opts iv) then 1 else 0)
       \<and> m_push v = (if Opt_t \<in> set (inv_opts iv) then 1 else 0)
       \<and> (1 < m_copy v + m_create v + m_push v \<longrightarrow>
            main os iv k = (Exit EXIT_FAILURE, \<lparr>kern = k, trace = [Say (Warnx ''bad usage''), Say Try_Help]\<rparr>))
       \<and> (usage_error v (inv_args iv) = None \<longrightarrow> m_copy v + m_create v + m_push v \<le> 1)
       \<and> (m_copy v + m_create v + m_push v = 0 \<longrightarrow>
            select_cmd v = CORE_SHOW
            \<and> list_all (\<lambda>c. call_option c = PR_SCHED_CORE_GET) (calls_of (trace (snd (main os iv k)))))"
proof -
  note fl = getopt_flags [OF assms]
  have 1: "main os iv k = (Exit EXIT_FAILURE, \<lparr>kern = k, trace = [Say (Warnx ''bad usage''), Say Try_Help]\<rparr>)"
    if "1 < m_copy v + m_create v + m_push v"
  proof -
    from that have "usage_error v (inv_args iv) = Some ''bad usage''"
      by (simp add: usage_error_def Let_def)
    from main_rejected [OF assms this] show ?thesis .
  qed
  have 2: "m_copy v + m_create v + m_push v \<le> 1" if "usage_error v (inv_args iv) = None"
    using usage_error_NoneD(4) [OF that] .
  have 3: "select_cmd v = CORE_SHOW
            \<and> list_all (\<lambda>c. call_option c = PR_SCHED_CORE_GET) (calls_of (trace (snd (main os iv k))))"
    if z: "m_copy v + m_create v + m_push v = 0"
  proof -
    from z fl(1,2,3) have sc: "select_cmd v = CORE_SHOW"
      by (simp add: select_cmd_def split: if_splits)
    show ?thesis
    proof (cases "usage_error v (inv_args iv)")
      case (Some msg)
      from main_rejected [OF assms Some, of os k] sc show ?thesis by simp
    next
      case None
      have cm: "cs_cmd ((m_cs v)\<lparr>cs_cmd := select_cmd v, cs_pid := m_pid v\<rparr>) = CORE_SHOW"
        using sc by simp
      show ?thesis using sc
        by (simp add: main_accepted [OF assms None] finish_facts(1) do_coreset_show_calls
            proc0_def say_def)
    qed
  qed
  from fl(1,2,3) 1 2 3 show ?thesis by blast
qed

theorem commands_mutually_exclusive_witness:
  "getopt_loop (inv_opts \<lparr>inv_opts = [Opt_n, Opt_t, Opt_p (Some 700)], inv_args = []\<rparr>) mainvars0
     = Inr (mainvars0\<lparr>m_create := 1, m_push := 1, m_pid := 700\<rparr>)
   \<and> 1 < m_copy (mainvars0\<lparr>m_create := 1, m_push := 1, m_pid := 700\<rparr>)
          + m_create (mainvars0\<lparr>m_create := 1, m_push := 1, m_pid := 700\<rparr>)
          + m_push (mainvars0\<lparr>m_create := 1, m_push := 1, m_pid := 700\<rparr>)
   \<and> main demo_os \<lparr>inv_opts = [Opt_n, Opt_t, Opt_p (Some 700)], inv_args = []\<rparr> demo_kernel
       = (Exit EXIT_FAILURE, \<lparr>kern = demo_kernel, trace = [Say (Warnx ''bad usage''), Say Try_Help]\<rparr>)"
proof -
  let ?iv = "\<lparr>inv_opts = [Opt_n, Opt_t, Opt_p (Some 700)], inv_args = []\<rparr>"
  let ?v = "mainvars0\<lparr>m_create := 1, m_push := 1, m_pid := 700\<rparr>"
  have p: "getopt_loop (inv_opts ?iv) mainvars0 = Inr ?v" by simp
  have m: "1 < m_copy ?v + m_create ?v + m_push ?v" by (simp add: mainvars0_def)
  from commands_mutually_exclusive [OF p, of demo_os demo_kernel] p m show ?thesis by simp
qed

lemma do_coreset_first_event:
  "\<exists>tl. trace (snd (do_coreset os cs st)) =
     trace st @ kcall PR_SCHED_CORE_GET (if cs_cmd cs = CORE_COPY then 0 else cs_pid cs)
                  PR_SCHED_CORE_SCOPE_THREAD # tl"
  by (cases "cs_cmd cs") (simp_all add: run_defs)

lemma main_not_failed:
  assumes "getopt_loop (inv_opts iv) mainvars0 = Inr v" "fst (main os iv k) \<noteq> Exit EXIT_FAILURE"
  shows "usage_error v (inv_args iv) = None"
proof (cases "usage_error v (inv_args iv)")
  case (Some msg)
  from main_rejected [OF assms(1) Some, of os k] assms(2) show ?thesis by simp
qed simp

section \<open>NEW\<close>

text \<open>
  Claim C2, as the code has it. \<^verbatim>\<open>-n\<close> with both a pid and a trailing program passes the
  checks of \<^verbatim>\<open>main\<close> (given no other command flag, a positive pid and a scope of 0, 1
  or 2). The process warns \<^verbatim>\<open>Ingoring extraneous input\<close>, drops the program, which is
  never executed, and creates the cookie on the named pid at the requested scope; when
  no kernel call fails it exits with \<^verbatim>\<open>EXIT_SUCCESS\<close>.
\<close>

theorem new_with_pid_ignores_program:
  assumes "getopt_loop (inv_opts iv) mainvars0 = Inr v"
    and "Opt_n \<in> set (inv_opts iv)" and "Opt_c \<notin> set (inv_opts iv)" and "Opt_t \<notin> set (inv_opts iv)"
    and "0 < m_pid v"
    and "cs_scope (m_cs v) \<in> {PR_SCHED_CORE_SCOPE_THREAD, PR_SCHED_CORE_SCOPE_THREAD_GROUP,
                                 PR_SCHED_CORE_SCOPE_PROCESS_GROUP}"
    and "inv_args iv \<noteq> []"
  shows "usage_error v (inv_args iv) = None
       \<and> (\<exists>tl. trace (snd (main os iv k)) =
                 Say (Warnx ''Ingoring extraneous input'')
                 # kcall PR_SCHED_CORE_GET (m_pid v) PR_SCHED_CORE_SCOPE_THREAD # tl)
       \<and> (\<forall>a. fst (main os iv k) \<noteq> Exec a)
       \<and> prefix (calls_of (trace (snd (main os iv k))))
            [\<lparr>call_option = PR_SCHED_CORE_GET, call_pid = m_pid v, call_scope = PR_SCHED_CORE_SCOPE_THREAD\<rparr>,
             \<lparr>call_option = PR_SCHED_CORE_CREATE, call_pid = m_pid v, call_scope = cs_scope (m_cs v)\<rparr>,
             \<lparr>call_option = PR_SCHED_CORE_GET, call_pid = m_pid v, call_scope = PR_SCHED_CORE_SCOPE_THREAD\<rparr>]
       \<and> (fst (main os iv k) \<noteq> Exit EXIT_FAILURE \<longrightarrow>
            fst (main os iv k) = Exit EXIT_SUCCESS
            \<and> calls_of (trace (snd (main os iv k))) =
               [\<lparr>call_option = PR_SCHED_CORE_GET, call_pid = m_pid v, call_scope = PR_SCHED_CORE_SCOPE_THREAD\<rparr>,
                \<lparr>call_option = PR_SCHED_CORE_CREATE, call_pid = m_pid v, call_scope = cs_scope (m_cs v)\<rparr>,
                \<lparr>call_option = PR_SCHED_CORE_GET, call_pid = m_pid v, call_scope = PR_SCHED_CORE_SCOPE_THREAD\<rparr>])"
proof -
  note fl = getopt_flags [OF assms(1)]
  have f: "m_create v = 1" "m_copy v = 0" "m_push v = 0"
    using fl(1,2,3) assms(2,3,4) by simp_all
  have ue: "usage_error v (inv_args iv) = None"
    using f assms(5,6,7) by (auto simp add: usage_error_def Let_def consts_defs)
  have sc: "select_cmd v = CORE_CREATE" using f by (simp add: select_cmd_def)
  let ?cs = "(m_cs v)\<lparr>cs_cmd := CORE_CREATE, cs_pid := m_pid v\<rparr>"
  let ?st = "say (Warnx ''Ingoring extraneous input'') (proc0 k)"
  let ?R = "do_coreset os ?cs ?st"
  have m: "main os iv k = (case ?R of (Inl e, st2) \<Rightarrow> (Exit e, st2)
                            | (Inr x, st2) \<Rightarrow> launch os False (inv_args iv) st2)"
    using assms(5,7) by (simp add: main_accepted [OF assms(1) ue] sc cong: prod.case_cong sum.case_cong)
  have cm: "cs_cmd ?cs = CORE_CREATE" by simp
  have fails: "main os iv k = (Exit EXIT_FAILURE, snd ?R)" if "fst ?R = Inl e" for e
    using finish_facts(3) [of ?R os False "inv_args iv"] do_coreset_fails [OF that] that
    by (simp add: m)
  have oks: "main os iv k = (Exit EXIT_SUCCESS, snd ?R)" if "fst ?R = Inr c" for c
    using finish_facts(4) [OF that, of os False "inv_args iv"]
    by (simp add: m launch_cases(1))
  have tr: "trace (snd (main os iv k)) = trace (snd ?R)"
    using fails oks by (cases "fst ?R") simp_all
  have 2: "\<exists>tl. trace (snd (main os iv k)) =
                 Say (Warnx ''Ingoring extraneous input'')
                 # kcall PR_SCHED_CORE_GET (m_pid v) PR_SCHED_CORE_SCOPE_THREAD # tl"
    using do_coreset_first_event [of os ?cs ?st] by (simp add: tr say_def proc0_def)
  have 3: "\<forall>a. fst (main os iv k) \<noteq> Exec a"
    using fails oks by (cases "fst ?R") simp_all
  have 4: "prefix (calls_of (trace (snd (main os iv k))))
            [\<lparr>call_option = PR_SCHED_CORE_GET, call_pid = m_pid v, call_scope = PR_SCHED_CORE_SCOPE_THREAD\<rparr>,
             \<lparr>call_option = PR_SCHED_CORE_CREATE, call_pid = m_pid v, call_scope = cs_scope (m_cs v)\<rparr>,
             \<lparr>call_option = PR_SCHED_CORE_GET, call_pid = m_pid v, call_scope = PR_SCHED_CORE_SCOPE_THREAD\<rparr>]"
    using do_coreset_create_calls [OF cm, of os ?st] by (simp add: tr say_def proc0_def)
  have 5: "fst (main os iv k) = Exit EXIT_SUCCESS
            \<and> calls_of (trace (snd (main os iv k))) =
               [\<lparr>call_option = PR_SCHED_CORE_GET, call_pid = m_pid v, call_scope = PR_SCHED_CORE_SCOPE_THREAD\<rparr>,
                \<lparr>call_option = PR_SCHED_CORE_CREATE, call_pid = m_pid v, call_scope = cs_scope (m_cs v)\<rparr>,
                \<lparr>call_option = PR_SCHED_CORE_GET, call_pid = m_pid v, call_scope = PR_SCHED_CORE_SCOPE_THREAD\<rparr>]"
    if ok: "fst (main os iv k) \<noteq> Exit EXIT_FAILURE"
  proof -
    from ok fails obtain c where c: "fst ?R = Inr c" by (cases "fst ?R") auto
    from do_coreset_create_ok [OF cm c] oks [OF c] show ?thesis
      by (auto simp add: tr say_def proc0_def kcall_def)
  qed
  from ue 2 3 4 5 show ?thesis by blast
qed

text \<open>
  The claim as the spec words it fails at \<^verbatim>\<open>coreset -n -p 700 sshd\<close>: the request
  passes the checks, the cookie of task 700 is replaced and the process exits with
  status 0.
\<close>

theorem new_with_pid_and_program_accepted:
  "getopt_loop [Opt_n, Opt_p (Some 700)] mainvars0 = Inr (mainvars0\<lparr>m_create := 1, m_pid := 700\<rparr>)
   \<and> usage_error (mainvars0\<lparr>m_create := 1, m_pid := 700\<rparr>) [''sshd''] = None
   \<and> fst (main demo_os \<lparr>inv_opts = [Opt_n, Opt_p (Some 700)], inv_args = [''sshd'']\<rparr> demo_kernel)
       = Exit EXIT_SUCCESS
   \<and> trace (snd (main demo_os \<lparr>inv_opts = [Opt_n, Opt_p (Some 700)], inv_args = [''sshd'']\<rparr> demo_kernel))
       = [Say (Warnx ''Ingoring extraneous input''),
          kcall PR_SCHED_CORE_GET 700 PR_SCHED_CORE_SCOPE_THREAD,
          Say (Cookie_Line False 700 5),
          kcall PR_SCHED_CORE_CREATE 700 PR_SCHED_CORE_SCOPE_THREAD,
          kcall PR_SCHED_CORE_GET 700 PR_SCHED_CORE_SCOPE_THREAD,
          Say (Cookie_Line True 700 100)]"
  by (simp add: main_def main_body_def usage_error_def select_cmd_def launch_def proc0_def
        mainvars0_def run_defs consts_defs kernel_defs demo_defs)

theorem new_with_pid_ignores_program_witness:
  "getopt_loop (inv_opts \<lparr>inv_opts = [Opt_n, Opt_p (Some 700)], inv_args = [''sshd'']\<rparr>) mainvars0
      = Inr (mainvars0\<lparr>m_create := 1, m_pid := 700\<rparr>)
   \<and> fst (main demo_os \<lparr>inv_opts = [Opt_n, Opt_p (Some 700)], inv_args = [''sshd'']\<rparr> demo_kernel)
       = Exit EXIT_SUCCESS
   \<and> calls_of (trace (snd (main demo_os \<lparr>inv_opts = [Opt_n, Opt_p (Some 700)], inv_args = [''sshd'']\<rparr> demo_kernel))) =
               [\<lparr>call_option = PR_SCHED_CORE_GET, call_pid = 700, call_scope = PR_SCHED_CORE_SCOPE_THREAD\<rparr>,
                \<lparr>call_option = PR_SCHED_CORE_CREATE, call_pid = 700, call_scope = 0\<rparr>,
                \<lparr>call_option = PR_SCHED_CORE_GET, call_pid = 700, call_scope = PR_SCHED_CORE_SCOPE_THREAD\<rparr>]"
proof -
  let ?iv = "\<lparr>inv_opts = [Opt_n, Opt_p (Some 700)], inv_args = [''sshd'']\<rparr>"
  let ?v = "mainvars0\<lparr>m_create := 1, m_pid := 700\<rparr>"
  have p: "getopt_loop (inv_opts ?iv) mainvars0 = Inr ?v" by simp
  have h: "Opt_n \<in> set (inv_opts ?iv)" "Opt_c \<notin> set (inv_opts ?iv)" "Opt_t \<notin> set (inv_opts ?iv)"
    "0 < m_pid ?v"
    "cs_scope (m_cs ?v) \<in> {PR_SCHED_CORE_SCOPE_THREAD, PR_SCHED_CORE_SCOPE_THREAD_GROUP,
                                 PR_SCHED_CORE_SCOPE_PROCESS_GROUP}"
    "inv_args ?iv \<noteq> []"
    by (simp_all add: mainvars0_def consts_defs)
  have e: "fst (main demo_os ?iv demo_kernel) = Exit EXIT_SUCCESS"
    by (simp add: main_def main_body_def usage_error_def select_cmd_def launch_def proc0_def
        mainvars0_def run_defs consts_defs kernel_defs demo_defs)
  have s: "cs_scope (m_cs ?v) = 0" by (simp add: mainvars0_def)
  from new_with_pid_ignores_program [OF p h, of demo_os demo_kernel] e p s
  show ?thesis by (simp add: consts_defs)
qed



lemma spec_share_to:
  assumes "0 \<le> fst (spec_prctl k \<lparr>call_option = PR_SCHED_CORE_SHARE_TO, call_pid = p, call_scope = sc\<rparr>)"
    and "p \<noteq> 0"
  shows "k_cookie k (k_self k) \<noteq> None"
    and "k_cookie (snd (snd (spec_prctl k \<lparr>call_option = PR_SCHED_CORE_SHARE_TO, call_pid = p, call_scope = sc\<rparr>))) p
           = k_cookie k (k_self k)"
  using assms
  by (auto simp add: spec_prctl_def set_cookies_def in_scope_def Let_def split: option.splits if_splits)

lemma do_coreset_push_kern:
  assumes "cs_cmd cs = CORE_PUSH" "fst (do_coreset os cs st) = Inr cs'"
  shows "\<exists>k1 k2.
           k1 = snd (snd (os_prctl os (kern st) \<lparr>call_option = PR_SCHED_CORE_GET, call_pid = cs_pid cs, call_scope = PR_SCHED_CORE_SCOPE_THREAD\<rparr>))
         \<and> k2 = snd (snd (os_prctl os k1 \<lparr>call_option = PR_SCHED_CORE_SHARE_TO, call_pid = cs_pid cs, call_scope = cs_scope cs\<rparr>))
         \<and> 0 \<le> fst (os_prctl os k1 \<lparr>call_option = PR_SCHED_CORE_SHARE_TO, call_pid = cs_pid cs, call_scope = cs_scope cs\<rparr>)
         \<and> kern (snd (do_coreset os cs st))
             = snd (snd (os_prctl os k2 \<lparr>call_option = PR_SCHED_CORE_GET, call_pid = cs_pid cs, call_scope = PR_SCHED_CORE_SCOPE_THREAD\<rparr>))"
  using assms by (simp add: run_defs split: if_splits)

lemma do_coreset_push_spec:
  assumes "cs_cmd cs = CORE_PUSH" "cs_pid cs \<noteq> 0" "fst (do_coreset (spec_os ex) cs st) = Inr cs'"
  shows "k_cookie (kern st) (k_self (kern st)) \<noteq> None \<and>
         k_cookie (kern (snd (do_coreset (spec_os ex) cs st))) (cs_pid cs)
           = k_cookie (kern st) (k_self (kern st))"
  using do_coreset_push_kern [OF assms(1,3)] spec_share_to [OF _ assms(2), of "kern st" "cs_scope cs"]
  by (simp add: spec_os_def spec_get_unchanged)

section \<open>PUSH\<close>

text \<open>
  Claim C10. \<^verbatim>\<open>-t\<close> selects a fourth command, \<^verbatim>\<open>CORE_PUSH\<close>. Without a pid the
  invocation is rejected with \<^verbatim>\<open>bad usage\<close> before any kernel call. With one, the kernel
  calls are an initial part of: read the cookie of the pid, push the cookie of the calling
  task onto the pid at the requested scope (\<^verbatim>\<open>PR_SCHED_CORE_SHARE_TO\<close>), read the cookie
  of the pid again. When the run does not fail, all of this has happened, each read
  followed by its report, and then the process exits with \<^verbatim>\<open>EXIT_SUCCESS\<close> when no program
  was given, or executes the trailing program when one was. On the kernel of the spec
  the cookie of the pid afterwards is the cookie the calling task had (possibly none).
\<close>

theorem push_command:
  assumes "getopt_loop (inv_opts iv) mainvars0 = Inr v"
    and "Opt_t \<in> set (inv_opts iv)" and "Opt_c \<notin> set (inv_opts iv)" and "Opt_n \<notin> set (inv_opts iv)"
  shows "select_cmd v = CORE_PUSH
       \<and> (m_pid v = 0 \<longrightarrow>
            main os iv k = (Exit EXIT_FAILURE, \<lparr>kern = k, trace = [Say (Warnx ''bad usage''), Say Try_Help]\<rparr>))
       \<and> prefix (calls_of (trace (snd (main os iv k))))
            [\<lparr>call_option = PR_SCHED_CORE_GET, call_pid = m_pid v, call_scope = PR_SCHED_CORE_SCOPE_THREAD\<rparr>,
             \<lparr>call_option = PR_SCHED_CORE_SHARE_TO, call_pid = m_pid v, call_scope = cs_scope (m_cs v)\<rparr>,
             \<lparr>call_option = PR_SCHED_CORE_GET, call_pid = m_pid v, call_scope = PR_SCHED_CORE_SCOPE_THREAD\<rparr>]
       \<and> (fst (main os iv k) \<noteq> Exit EXIT_FAILURE \<longrightarrow>
            (\<exists>p0 c0 p1 c1 tl.
               trace (snd (main os iv k)) =
                 [kcall PR_SCHED_CORE_GET (m_pid v) PR_SCHED_CORE_SCOPE_THREAD,
                  Say (Cookie_Line False p0 c0),
                  kcall PR_SCHED_CORE_SHARE_TO (m_pid v) (cs_scope (m_cs v)),
                  kcall PR_SCHED_CORE_GET (m_pid v) PR_SCHED_CORE_SCOPE_THREAD,
                  Say (Cookie_Line True p1 c1)] @ tl
               \<and> (inv_args iv = [] \<longrightarrow> tl = [] \<and> fst (main os iv k) = Exit EXIT_SUCCESS)
               \<and> (inv_args iv \<noteq> [] \<and> os_execvp os (inv_args iv) = None \<longrightarrow>
                    tl = [] \<and> fst (main os iv k) = Exec (inv_args iv))))
       \<and> (fst (main (spec_os ex) iv ks) \<noteq> Exit EXIT_FAILURE \<longrightarrow>
            k_cookie ks (k_self ks) \<noteq> None
            \<and> k_cookie (kern (snd (main (spec_os ex) iv ks))) (m_pid v) = k_cookie ks (k_self ks))"
proof -
  note fl = getopt_flags [OF assms(1)]
  have f: "m_push v = 1" "m_copy v = 0" "m_create v = 0" using fl(1,2,3) assms(2,3,4) by simp_all
  have sc: "select_cmd v = CORE_PUSH" using f by (simp add: select_cmd_def)
  let ?cs = "(m_cs v)\<lparr>cs_cmd := CORE_PUSH, cs_pid := m_pid v\<rparr>"
  let ?b = "inv_args iv \<noteq> []"
  have cm: "cs_cmd ?cs = CORE_PUSH" by simp
  have m: "main os iv k = (case do_coreset os ?cs (proc0 k) of (Inl e, st2) \<Rightarrow> (Exit e, st2)
                            | (Inr x, st2) \<Rightarrow> launch os ?b (inv_args iv) st2)"
    if ue: "usage_error v (inv_args iv) = None"
    by (simp add: main_accepted [OF assms(1) ue] sc cong: prod.case_cong sum.case_cong)
  have ms: "main (spec_os ex) iv ks =
              (case do_coreset (spec_os ex) ?cs (proc0 ks) of (Inl e, st2) \<Rightarrow> (Exit e, st2)
               | (Inr x, st2) \<Rightarrow> launch (spec_os ex) ?b (inv_args iv) st2)"
    if ue: "usage_error v (inv_args iv) = None"
    by (simp add: main_accepted [OF assms(1) ue] sc cong: prod.case_cong sum.case_cong)
  have pid: "m_pid v \<noteq> 0" if ue: "usage_error v (inv_args iv) = None"
    using usage_error_NoneD(3) [OF ue] f by simp
  have 1: "main os iv k = (Exit EXIT_FAILURE, \<lparr>kern = k, trace = [Say (Warnx ''bad usage''), Say Try_Help]\<rparr>)"
    if "m_pid v = 0"
  proof -
    from that f have "usage_error v (inv_args iv) = Some ''bad usage''"
      by (simp add: usage_error_def Let_def)
    from main_rejected [OF assms(1) this] show ?thesis .
  qed
  have 2: "prefix (calls_of (trace (snd (main os iv k))))
            [\<lparr>call_option = PR_SCHED_CORE_GET, call_pid = m_pid v, call_scope = PR_SCHED_CORE_SCOPE_THREAD\<rparr>,
             \<lparr>call_option = PR_SCHED_CORE_SHARE_TO, call_pid = m_pid v, call_scope = cs_scope (m_cs v)\<rparr>,
             \<lparr>call_option = PR_SCHED_CORE_GET, call_pid = m_pid v, call_scope = PR_SCHED_CORE_SCOPE_THREAD\<rparr>]"
  proof (cases "usage_error v (inv_args iv)")
    case (Some msg)
    from main_rejected [OF assms(1) Some, of os k] show ?thesis by simp
  next
    case None
    from do_coreset_push_calls [OF cm, of os "proc0 k"] show ?thesis
      by (simp add: m [OF None] finish_facts(1) proc0_def)
  qed
  have 3: "\<exists>p0 c0 p1 c1 tl.
               trace (snd (main os iv k)) =
                 [kcall PR_SCHED_CORE_GET (m_pid v) PR_SCHED_CORE_SCOPE_THREAD,
                  Say (Cookie_Line False p0 c0),
                  kcall PR_SCHED_CORE_SHARE_TO (m_pid v) (cs_scope (m_cs v)),
                  kcall PR_SCHED_CORE_GET (m_pid v) PR_SCHED_CORE_SCOPE_THREAD,
                  Say (Cookie_Line True p1 c1)] @ tl
               \<and> (inv_args iv = [] \<longrightarrow> tl = [] \<and> fst (main os iv k) = Exit EXIT_SUCCESS)
               \<and> (inv_args iv \<noteq> [] \<and> os_execvp os (inv_args iv) = None \<longrightarrow>
                    tl = [] \<and> fst (main os iv k) = Exec (inv_args iv))"
    if ok: "fst (main os iv k) \<noteq> Exit EXIT_FAILURE"
  proof -
    note ue = main_not_failed [OF assms(1) ok]
    let ?R = "do_coreset os ?cs (proc0 k)"
    from ok obtain c where c: "fst ?R = Inr c"
      using finish_ok [where os = os and cs = ?cs and st = "proc0 k" and b = ?b and argv = "inv_args iv"]
      by (auto simp add: m [OF ue])
    have ml: "main os iv k = launch os ?b (inv_args iv) (snd ?R)"
      using finish_facts(4) [OF c, of os ?b "inv_args iv"] by (simp add: m [OF ue])
    from do_coreset_push_ok [OF cm c] obtain p0 c0 p1 c1 where
      t: "trace (snd ?R) =
                 [kcall PR_SCHED_CORE_GET (m_pid v) PR_SCHED_CORE_SCOPE_THREAD,
                  Say (Cookie_Line False p0 c0),
                  kcall PR_SCHED_CORE_SHARE_TO (m_pid v) (cs_scope (m_cs v)),
                  kcall PR_SCHED_CORE_GET (m_pid v) PR_SCHED_CORE_SCOPE_THREAD,
                  Say (Cookie_Line True p1 c1)]"
      by (auto simp add: proc0_def)
    show ?thesis
    proof (cases "inv_args iv = []")
      case True
      from launch_cases(1) [of ?b os "inv_args iv" "snd ?R"] t True show ?thesis
        by (simp add: ml)
    next
      case False
      show ?thesis
      proof (cases "os_execvp os (inv_args iv)")
        case None
        from launch_cases(2) [OF _ None, of ?b "snd ?R"] t False show ?thesis
          by (simp add: ml None)
      next
        case (Some e)
        from launch_cases(4) [of os ?b "inv_args iv" "snd ?R"] t False show ?thesis
          by (auto simp add: ml Some)
      qed
    qed
  qed
  have 4: "k_cookie ks (k_self ks) \<noteq> None
            \<and> k_cookie (kern (snd (main (spec_os ex) iv ks))) (m_pid v) = k_cookie ks (k_self ks)"
    if ok: "fst (main (spec_os ex) iv ks) \<noteq> Exit EXIT_FAILURE"
  proof -
    note ue = main_not_failed [OF assms(1) ok]
    from ok obtain c where c: "fst (do_coreset (spec_os ex) ?cs (proc0 ks)) = Inr c"
      using finish_ok [where os = "spec_os ex" and cs = ?cs and st = "proc0 ks" and b = ?b and argv = "inv_args iv"]
      by (auto simp add: ms [OF ue])
    from do_coreset_push_spec [OF cm _ c] pid [OF ue] show ?thesis
      by (simp add: ms [OF ue] finish_facts(2) proc0_def)
  qed
  from sc 1 2 3 4 show ?thesis by blast
qed

theorem push_command_witness:
  "getopt_loop (inv_opts \<lparr>inv_opts = [Opt_s (Some 2), Opt_t, Opt_p (Some 700)], inv_args = []\<rparr>) mainvars0
      = Inr (mainvars0\<lparr>m_push := 1, m_pid := 700,
               m_cs := \<lparr>cs_pid = 0, cs_cookie = 0, cs_cmd = CORE_SHOW, cs_scope = 2\<rparr>\<rparr>)
   \<and> fst (main demo_os \<lparr>inv_opts = [Opt_s (Some 2), Opt_t, Opt_p (Some 700)], inv_args = []\<rparr> demo_kernel)
      = Exit EXIT_SUCCESS
   \<and> trace (snd (main demo_os \<lparr>inv_opts = [Opt_s (Some 2), Opt_t, Opt_p (Some 700)], inv_args = []\<rparr> demo_kernel))
      = [kcall PR_SCHED_CORE_GET 700 PR_SCHED_CORE_SCOPE_THREAD,
         Say (Cookie_Line False 700 5),
         kcall PR_SCHED_CORE_SHARE_TO 700 PR_SCHED_CORE_SCOPE_PROCESS_GROUP,
         kcall PR_SCHED_CORE_GET 700 PR_SCHED_CORE_SCOPE_THREAD,
         Say (Cookie_Line True 700 7)]
   \<and> k_cookie (kern (snd (main demo_os \<lparr>inv_opts = [Opt_s (Some 2), Opt_t, Opt_p (Some 700)], inv_args = []\<rparr> demo_kernel))) 700
      = Some 7"
proof -
  let ?iv = "\<lparr>inv_opts = [Opt_s (Some 2), Opt_t, Opt_p (Some 700)], inv_args = []\<rparr>"
  let ?v = "mainvars0\<lparr>m_push := 1, m_pid := 700,
               m_cs := \<lparr>cs_pid = 0, cs_cookie = 0, cs_cmd = CORE_SHOW, cs_scope = 2\<rparr>\<rparr>"
  have p: "getopt_loop (inv_opts ?iv) mainvars0 = Inr ?v" by (simp add: mainvars0_def)
  have h: "Opt_t \<in> set (inv_opts ?iv)" "Opt_c \<notin> set (inv_opts ?iv)" "Opt_n \<notin> set (inv_opts ?iv)"
    by simp_all
  have t: "trace (snd (main demo_os ?iv demo_kernel))
      = [kcall PR_SCHED_CORE_GET 700 PR_SCHED_CORE_SCOPE_THREAD,
         Say (Cookie_Line False 700 5),
         kcall PR_SCHED_CORE_SHARE_TO 700 PR_SCHED_CORE_SCOPE_PROCESS_GROUP,
         kcall PR_SCHED_CORE_GET 700 PR_SCHED_CORE_SCOPE_THREAD,
         Say (Cookie_Line True 700 7)]"
    by (simp add: main_def main_body_def usage_error_def select_cmd_def launch_def proc0_def
        mainvars0_def run_defs consts_defs kernel_defs demo_defs)
  have e: "fst (main demo_os ?iv demo_kernel) = Exit EXIT_SUCCESS"
    by (simp add: main_def main_body_def usage_error_def select_cmd_def launch_def proc0_def
        mainvars0_def run_defs consts_defs kernel_defs demo_defs)
  have ne: "fst (main (spec_os (\<lambda>argv. None)) ?iv demo_kernel) \<noteq> Exit EXIT_FAILURE"
    using e by (simp add: demo_os_def consts_defs)
  have s: "k_cookie demo_kernel (k_self demo_kernel) = Some 7" "m_pid ?v = 700"
    by (simp_all add: demo_kernel_def)
  from push_command [OF p h, of demo_os demo_kernel "\<lambda>argv. None" demo_kernel] ne e t p s
  show ?thesis by (simp add: demo_os_def)
qed


section \<open>SHOW\<close>



lemma do_coreset_copy_scope:
  assumes "cs_cmd cs = CORE_COPY"
  shows "(case do_coreset os (cs\<lparr>cs_scope := s\<rparr>) st of (Inl e, st2) \<Rightarrow> (Exit e, st2)
           | (Inr x, st2) \<Rightarrow> launch os b argv st2)
       = (case do_coreset os cs st of (Inl e, st2) \<Rightarrow> (Exit e, st2)
           | (Inr x, st2) \<Rightarrow> launch os b argv st2)"
  using assms by (simp add: run_defs)

lemma list_all_prefix:
  "prefix xs ys \<Longrightarrow> list_all P ys \<Longrightarrow> list_all P xs"
  by (auto simp add: prefix_def)

text \<open>
  Claim C9. The pull of a COPY is issued at scope 0 whatever \<^verbatim>\<open>-s\<close> says: every kernel
  call of a COPY run carries \<^verbatim>\<open>PR_SCHED_CORE_SCOPE_THREAD\<close>, and two COPY invocations that
  pass the checks and differ in nothing but the scope run alike: same kernel calls, same
  messages, same final kernel state, same end. (A scope outside 0, 1, 2 does not pass the
  checks, COPY or not: claim C3.)
\<close>

theorem copy_ignores_scope:
  assumes "getopt_loop (inv_opts iv) mainvars0 = Inr v"
    and "getopt_loop (inv_opts iv') mainvars0 = Inr v'"
    and "Opt_c \<in> set (inv_opts iv)"
    and "v' = v\<lparr>m_cs := (m_cs v)\<lparr>cs_scope := s'\<rparr>\<rparr>"
    and "inv_args iv' = inv_args iv"
    and "usage_error v (inv_args iv) = None"
    and "usage_error v' (inv_args iv') = None"
  shows "main os iv' k = main os iv k
       \<and> list_all (\<lambda>c. call_scope c = PR_SCHED_CORE_SCOPE_THREAD)
            (calls_of (trace (snd (main os iv k))))"
proof -
  note fl = getopt_flags [OF assms(1)]
  have c: "m_copy v \<noteq> 0" using fl(1) assms(3) by simp
  have cr: "m_create v = 0"
    using usage_error_NoneD(4) [OF assms(6)] c fl(1,2,3) by (simp split: if_splits)
  have sc: "select_cmd v = CORE_COPY" using c cr by (simp add: select_cmd_def)
  have sc': "select_cmd v' = CORE_COPY" using c cr assms(4) by (simp add: select_cmd_def)
  have pid: "m_pid v \<noteq> 0" using usage_error_NoneD(2) [OF assms(6) c] by simp
  have eqs: "m_pid v' = m_pid v" "m_cs v' = (m_cs v)\<lparr>cs_scope := s'\<rparr>"
    using assms(4) by simp_all
  let ?cs = "(m_cs v)\<lparr>cs_cmd := CORE_COPY, cs_pid := m_pid v\<rparr>"
  have cm: "cs_cmd ?cs = CORE_COPY" by simp
  have m: "main os iv k = (case do_coreset os ?cs (proc0 k) of (Inl e, st2) \<Rightarrow> (Exit e, st2)
                            | (Inr x, st2) \<Rightarrow> launch os (inv_args iv \<noteq> []) (inv_args iv) st2)"
    by (simp add: main_accepted [OF assms(1,6)] sc cong: prod.case_cong sum.case_cong)
  have re: "(m_cs v)\<lparr>cs_scope := s', cs_cmd := CORE_COPY, cs_pid := m_pid v\<rparr> = ?cs\<lparr>cs_scope := s'\<rparr>"
    by (cases "m_cs v") simp
  have m': "main os iv' k = (case do_coreset os ((m_cs v)\<lparr>cs_scope := s', cs_cmd := CORE_COPY, cs_pid := m_pid v\<rparr>) (proc0 k) of (Inl e, st2) \<Rightarrow> (Exit e, st2)
                            | (Inr x, st2) \<Rightarrow> launch os (inv_args iv \<noteq> []) (inv_args iv) st2)"
    using pid
    by (simp add: main_accepted [OF assms(2,7)] sc' eqs assms(5) cong: prod.case_cong sum.case_cong)
  have 1: "main os iv' k = main os iv k"
    by (simp only: m m' re do_coreset_copy_scope [OF cm])
  have "list_all (\<lambda>c. call_scope c = PR_SCHED_CORE_SCOPE_THREAD)
           [\<lparr>call_option = PR_SCHED_CORE_GET, call_pid = 0, call_scope = PR_SCHED_CORE_SCOPE_THREAD\<rparr>,
            \<lparr>call_option = PR_SCHED_CORE_SHARE_FROM, call_pid = m_pid v, call_scope = PR_SCHED_CORE_SCOPE_THREAD\<rparr>,
            \<lparr>call_option = PR_SCHED_CORE_GET, call_pid = 0, call_scope = PR_SCHED_CORE_SCOPE_THREAD\<rparr>]"
    by simp
  from list_all_prefix [OF _ this, of "calls_of (trace (snd (main os iv k)))"]
    do_coreset_copy_calls [OF cm, of os "proc0 k"]
  have 2: "list_all (\<lambda>c. call_scope c = PR_SCHED_CORE_SCOPE_THREAD)
            (calls_of (trace (snd (main os iv k))))"
    by (simp add: m finish_facts(1) proc0_def)
  from 1 2 show ?thesis by blast
qed

theorem copy_ignores_scope_witness:
  "main demo_os \<lparr>inv_opts = [Opt_s (Some 2), Opt_c, Opt_p (Some 700)], inv_args = [''sshd'']\<rparr> demo_kernel
     = main demo_os \<lparr>inv_opts = [Opt_c, Opt_p (Some 700)], inv_args = [''sshd'']\<rparr> demo_kernel
   \<and> calls_of (trace (snd (main demo_os \<lparr>inv_opts = [Opt_s (Some 2), Opt_c, Opt_p (Some 700)], inv_args = [''sshd'']\<rparr> demo_kernel)))
     = [\<lparr>call_option = PR_SCHED_CORE_GET, call_pid = 0, call_scope = 0\<rparr>,
        \<lparr>call_option = PR_SCHED_CORE_SHARE_FROM, call_pid = 700, call_scope = 0\<rparr>,
        \<lparr>call_option = PR_SCHED_CORE_GET, call_pid = 0, call_scope = 0\<rparr>]"
proof -
  let ?iv = "\<lparr>inv_opts = [Opt_c, Opt_p (Some 700)], inv_args = [''sshd'']\<rparr>"
  let ?iv' = "\<lparr>inv_opts = [Opt_s (Some 2), Opt_c, Opt_p (Some 700)], inv_args = [''sshd'']\<rparr>"
  let ?v = "mainvars0\<lparr>m_copy := 1, m_pid := 700\<rparr>"
  let ?v' = "?v\<lparr>m_cs := (m_cs ?v)\<lparr>cs_scope := 2\<rparr>\<rparr>"
  have p: "getopt_loop (inv_opts ?iv) mainvars0 = Inr ?v" by simp
  have p': "getopt_loop (inv_opts ?iv') mainvars0 = Inr ?v'" by (simp add: mainvars0_def)
  have h: "Opt_c \<in> set (inv_opts ?iv)" "?v' = ?v\<lparr>m_cs := (m_cs ?v)\<lparr>cs_scope := 2\<rparr>\<rparr>"
    "inv_args ?iv' = inv_args ?iv"
    by simp_all
  have u: "usage_error ?v (inv_args ?iv) = None" "usage_error ?v' (inv_args ?iv') = None"
    by (simp_all add: usage_error_def mainvars0_def consts_defs)
  have t: "calls_of (trace (snd (main demo_os ?iv demo_kernel)))
     = [\<lparr>call_option = PR_SCHED_CORE_GET, call_pid = 0, call_scope = 0\<rparr>,
        \<lparr>call_option = PR_SCHED_CORE_SHARE_FROM, call_pid = 700, call_scope = 0\<rparr>,
        \<lparr>call_option = PR_SCHED_CORE_GET, call_pid = 0, call_scope = 0\<rparr>]"
    by (simp add: main_def main_body_def usage_error_def select_cmd_def launch_def proc0_def
        mainvars0_def run_defs consts_defs kernel_defs demo_defs)
  from copy_ignores_scope [OF p p' h u, of demo_os demo_kernel] t
  show ?thesis by simp
qed

section \<open>Exit status\<close>











section \<open>What the report of a COPY names\<close>

text \<open>
  Claim C7 at \<^verbatim>\<open>coreset -c -p 700 sshd\<close>, run by task 42 whose cookie is 7 while task 700
  has cookie 5. The copy changes the cookie of the calling task, 42, from 7 to 5 and leaves
  task 700 as it was. \<^verbatim>\<open>get_cookie\<close> reads the cookie of the calling task (pid 0) before
  and after, as its comment says it should for a copy, but \<^verbatim>\<open>print_cookie\<close> prints
  \<^verbatim>\<open>cs->pid\<close> with it: both lines name pid 700, the source, and the first one gives 7
  as its current cookie.
\<close>

theorem copy_report_names_source:
  "k_self demo_kernel = 42
   \<and> k_cookie demo_kernel 42 = Some 7
   \<and> k_cookie demo_kernel 700 = Some 5
   \<and> fst (main demo_os \<lparr>inv_opts = [Opt_c, Opt_p (Some 700)], inv_args = [''sshd'']\<rparr> demo_kernel)
       = Exec [''sshd'']
   \<and> trace (snd (main demo_os \<lparr>inv_opts = [Opt_c, Opt_p (Some 700)], inv_args = [''sshd'']\<rparr> demo_kernel))
       = [kcall PR_SCHED_CORE_GET 0 PR_SCHED_CORE_SCOPE_THREAD,
          Say (Cookie_Line False 700 7),
          kcall PR_SCHED_CORE_SHARE_FROM 700 PR_SCHED_CORE_SCOPE_THREAD,
          kcall PR_SCHED_CORE_GET 0 PR_SCHED_CORE_SCOPE_THREAD,
          Say (Cookie_Line True 700 5)]
   \<and> k_cookie (kern (snd (main demo_os \<lparr>inv_opts = [Opt_c, Opt_p (Some 700)], inv_args = [''sshd'']\<rparr> demo_kernel))) 42
       = Some 5
   \<and> k_cookie (kern (snd (main demo_os \<lparr>inv_opts = [Opt_c, Opt_p (Some 700)], inv_args = [''sshd'']\<rparr> demo_kernel))) 700
       = Some 5"
  by (simp add: main_def main_body_def usage_error_def select_cmd_def launch_def proc0_def
        mainvars0_def run_defs consts_defs kernel_defs demo_defs)

end
